theory Spec2Isabelle
  imports Complex_Main "HOL-Library.Multiset" "HOL-Library.Char_ord" "HOL-Library.List_Lexorder"
begin

section \<open>Housing assessment prediction: the report tables of \<open>main\<close>\<close>

text \<open>
  The script \<open>housing_assessment_prediction.py\<close> is one function, \<open>main\<close>, that
  loads two tables, cross-validates four regressors, refits the ridge model and writes
  three CSV tables. This theory embeds \<open>main\<close> from the loaded tables to the written
  files.

  Conventions of the embedding:
  \<^item> A finite floating-point number is modelled by the rational it denotes (\<open>rat\<close>);
    NaN, infinities and the rounding error of float arithmetic are outside the model.
  \<^item> A Python exception is a value \<open>Inl e\<close> of a sum type.
  \<^item> Numerical routines of numpy and scikit-learn that \<open>main\<close> only calls (the sort
    behind \<open>np.argsort\<close>, the ridge solver, the per-fold fitting and scoring, the
    \<open>r2\<close> score) are parameters of the definitions; what the script relies on is
    stated as an explicit contract predicate where a theorem needs it.
  \<^item> The file system is a value passed through the writes and returned with the
    exception, if any.
\<close>

subsection \<open>Errors\<close>

datatype py_error =
    IndexError
  | ValueError
  | FileNotFoundError
  | FileExistsError
  | PermissionError
  | DiskFullError

subsection \<open>Rounding to a number of decimals\<close>

text \<open>
  \<open>ndarray.round(d)\<close> and \<open>Series.round(d)\<close> scale by \<open>10 ^ d\<close>, round to the nearest
  integer with ties going to the even neighbour (\<open>rint\<close>), and scale back.
\<close>

definition rint :: "rat \<Rightarrow> int" where
  "rint x =
     (let f = \<lfloor>x\<rfloor>; r = x - of_int f
      in if r < 1 / 2 then f
         else if 1 / 2 < r then f + 1
         else if even f then f else f + 1)"

definition np_round :: "nat \<Rightarrow> rat \<Rightarrow> rat" where
  "np_round d x = of_int (rint (x * 10 ^ d)) / 10 ^ d"

subsection \<open>Indexing a Python list\<close>

text \<open>
  \<open>xs[i]\<close> for an index \<open>i \<ge> 0\<close> raises \<open>IndexError\<close> past the end. The indices of
  \<open>main\<close> come from \<open>np.argsort\<close> and are never negative.
\<close>

definition py_index :: "'a list \<Rightarrow> nat \<Rightarrow> py_error + 'a" where
  "py_index xs i = (if i < length xs then Inr (xs ! i) else Inl IndexError)"

text \<open>A list comprehension whose body may raise: the first exception ends it.\<close>

fun comprehension :: "('a \<Rightarrow> py_error + 'b) \<Rightarrow> 'a list \<Rightarrow> py_error + 'b list" where
  "comprehension f [] = Inr []"
| "comprehension f (x # xs) =
     (case f x of
        Inl e \<Rightarrow> Inl e
      | Inr y \<Rightarrow> (case comprehension f xs of Inl e \<Rightarrow> Inl e | Inr ys \<Rightarrow> Inr (y # ys)))"

subsection \<open>The coefficient table (lines 117 to 121)\<close>

text \<open>
  \<^verbatim>\<open>
  weights = ridgecv.named_steps['ridgecv'].coef_.round(2).flatten()
  inds = np.argsort(ridgecv.named_steps['ridgecv'].coef_.flatten())
  feature_table = {"feature": [features[index] for index in inds[:]],
                   "coefficient": [weights[index] for index in inds[:]]}
  \<close>
  The dictionary of two columns is a record. \<open>coef\<close> is the fitted coefficient vector
  \<open>coef_\<close> (one-dimensional, so \<open>flatten\<close> changes nothing), \<open>argsort\<close> stands for
  \<open>np.argsort\<close> with its default \<open>kind\<close>.
\<close>

record feature_table =
  feature :: "string list"
  coefficient :: "rat list"

definition make_feature_table ::
    "(rat list \<Rightarrow> nat list) \<Rightarrow> string list \<Rightarrow> rat list \<Rightarrow> py_error + feature_table" where
  "make_feature_table argsort features coef =
     (let weights = map (np_round 2) coef;
          inds = argsort coef
      in case comprehension (py_index features) inds of
           Inl e \<Rightarrow> Inl e
         | Inr fs \<Rightarrow>
             (case comprehension (py_index weights) inds of
                Inl e \<Rightarrow> Inl e
              | Inr ws \<Rightarrow> Inr \<lparr>feature = fs, coefficient = ws\<rparr>))"

text \<open>
  What numpy documents of \<open>np.argsort(a)\<close>: the result is a permutation of the indices
  of \<open>a\<close>, and reading \<open>a\<close> through it gives \<open>a\<close> in ascending order. The default
  \<open>kind='quicksort'\<close> promises nothing about the order of equal elements.
\<close>

definition argsort_sorts :: "(rat list \<Rightarrow> nat list) \<Rightarrow> rat list \<Rightarrow> bool" where
  "argsort_sorts argsort a \<longleftrightarrow>
     mset (argsort a) = mset [0..<length a] \<and> sorted (map (\<lambda>i. a ! i) (argsort a))"

text \<open>
  Two sorts that meet the contract: one keeps equal elements in index order (what
  \<open>kind='stable'\<close> gives), the other puts the later of two equal elements first.
\<close>

definition stable_argsort :: "rat list \<Rightarrow> nat list" where
  "stable_argsort a = sort_key (\<lambda>i. a ! i) [0..<length a]"

definition reversing_argsort :: "rat list \<Rightarrow> nat list" where
  "reversing_argsort a = sort_key (\<lambda>i. a ! i) (rev [0..<length a])"

subsection \<open>The data set\<close>

text \<open>
  One row of the cleaned train or test table, restricted to the ten columns \<open>main\<close>
  selects (line 48). The categorical and the numerical cells may be missing in the
  file (\<open>None\<close>); the four binary cells hold the label found in the file.
\<close>

record house =
  AGE :: "rat option"
  BLDG_DESC :: "string option"
  BLDG_FEET :: "rat option"
  GARAGE :: string
  FIREPLACE :: string
  BASEMENT :: string
  BSMTDEVL :: string
  LATITUDE :: "rat option"
  LONGITUDE :: "rat option"
  ASSESSMENT :: rat

definition categorical_features :: "string list" where
  "categorical_features = [''BLDG_DESC'']"

definition binary_features :: "string list" where
  "binary_features = [''GARAGE'', ''FIREPLACE'', ''BASEMENT'', ''BSMTDEVL'']"

definition numerical_features :: "string list" where
  "numerical_features = [''AGE'', ''BLDG_FEET'', ''LATITUDE'', ''LONGITUDE'']"

subsection \<open>The preprocessor (lines 65 to 82)\<close>

text \<open>
  Modelled from the spec: \<open>SimpleImputer(strategy="constant")\<close> of scikit-learn, whose
  code is not in the repository. Section 4.3: a missing categorical value is filled
  with a constant placeholder category, a missing numerical value with a constant
  zero-like value. The placeholder of the library is the string \<open>missing_value\<close>.
\<close>

definition impute_categorical :: "string option \<Rightarrow> string" where
  "impute_categorical v = (case v of None \<Rightarrow> ''missing_value'' | Some s \<Rightarrow> s)"

definition impute_numerical :: "rat option \<Rightarrow> rat" where
  "impute_numerical v = (case v of None \<Rightarrow> 0 | Some x \<Rightarrow> x)"

text \<open>
  Modelled from the spec: \<open>OneHotEncoder\<close> of scikit-learn, whose code is not in the
  repository. Section 4.3: fitting records the categories observed in each column
  (the library keeps them sorted and without repetition); applying expands a value to
  one indicator per recorded category; with \<open>handle_unknown="ignore"\<close> a value that was
  not recorded maps to an all-zero indicator instead of an error; with
  \<open>drop="if_binary"\<close> a column with exactly two recorded categories keeps one indicator
  (the first category is dropped).
\<close>

datatype unknown_policy = Error | Ignore

record onehotencoder =
  handle_unknown :: unknown_policy
  drop_if_binary :: bool

definition unique :: "string list \<Rightarrow> string list" where
  "unique col = sort (remdups col)"

definition kept_categories :: "onehotencoder \<Rightarrow> string list \<Rightarrow> string list" where
  "kept_categories enc cats = (if drop_if_binary enc \<and> length cats = 2 then tl cats else cats)"

definition encode :: "onehotencoder \<Rightarrow> string list \<Rightarrow> string \<Rightarrow> py_error + rat list" where
  "encode enc cats v =
     (if v \<in> set cats
      then Inr (map (\<lambda>c. if c = v then 1 else 0) (kept_categories enc cats))
      else (case handle_unknown enc of
              Ignore \<Rightarrow> Inr (replicate (length (kept_categories enc cats)) 0)
            | Error \<Rightarrow> Inl ValueError))"

fun encode_columns ::
    "onehotencoder \<Rightarrow> string list list \<Rightarrow> string list \<Rightarrow> py_error + rat list" where
  "encode_columns enc (cats # catss) (v # vs) =
     (case encode enc cats v of
        Inl e \<Rightarrow> Inl e
      | Inr b \<Rightarrow> (case encode_columns enc catss vs of Inl e \<Rightarrow> Inl e | Inr bs \<Rightarrow> Inr (b @ bs)))"
| "encode_columns enc _ _ = Inr []"

definition get_feature_names ::
    "onehotencoder \<Rightarrow> string list list \<Rightarrow> string list \<Rightarrow> string list" where
  "get_feature_names enc catss input_features =
     concat (map2 (\<lambda>f cats. map (\<lambda>c. f @ ''_'' @ c) (kept_categories enc cats))
               input_features catss)"

text \<open>
  The two encoders as \<open>main\<close> configures them: line 67,
  \<open>OneHotEncoder(handle_unknown="ignore")\<close>, and line 71,
  \<open>OneHotEncoder(drop="if_binary", dtype=int)\<close>, whose \<open>handle_unknown\<close> is the
  library's default, \<open>"error"\<close>.
\<close>

definition categorical_encoder :: onehotencoder where
  "categorical_encoder = \<lparr>handle_unknown = Ignore, drop_if_binary = False\<rparr>"

definition binary_encoder :: onehotencoder where
  "binary_encoder = \<lparr>handle_unknown = Error, drop_if_binary = True\<rparr>"

text \<open>
  The column transformer of lines 78 to 82: the categorical pipeline on
  \<open>categorical_features\<close>, the binary pipeline on \<open>binary_features\<close>, the numerical
  pipeline on \<open>numerical_features\<close>, their outputs side by side in this order.
\<close>

definition categorical_values :: "house \<Rightarrow> string list" where
  "categorical_values r = [impute_categorical (BLDG_DESC r)]"

definition binary_values :: "house \<Rightarrow> string list" where
  "binary_values r = [GARAGE r, FIREPLACE r, BASEMENT r, BSMTDEVL r]"

definition numerical_values :: "house \<Rightarrow> rat list" where
  "numerical_values r = map impute_numerical [AGE r, BLDG_FEET r, LATITUDE r, LONGITUDE r]"

record preprocessor =
  categorical_categories :: "string list list"
  binary_categories :: "string list list"

definition preprocessor_fit :: "house list \<Rightarrow> preprocessor" where
  "preprocessor_fit train =
     \<lparr>categorical_categories = [unique (map (\<lambda>r. impute_categorical (BLDG_DESC r)) train)],
      binary_categories =
        [unique (map GARAGE train), unique (map FIREPLACE train),
         unique (map BASEMENT train), unique (map BSMTDEVL train)]\<rparr>"

definition categorical_block :: "preprocessor \<Rightarrow> house \<Rightarrow> py_error + rat list" where
  "categorical_block pre r =
     encode_columns categorical_encoder (categorical_categories pre) (categorical_values r)"

definition binary_block :: "preprocessor \<Rightarrow> house \<Rightarrow> py_error + rat list" where
  "binary_block pre r =
     encode_columns binary_encoder (binary_categories pre) (binary_values r)"

definition preprocessor_transform :: "preprocessor \<Rightarrow> house \<Rightarrow> py_error + rat list" where
  "preprocessor_transform pre r =
     (case categorical_block pre r of
        Inl e \<Rightarrow> Inl e
      | Inr c \<Rightarrow>
          (case binary_block pre r of
             Inl e \<Rightarrow> Inl e
           | Inr b \<Rightarrow> Inr (c @ b @ numerical_values r)))"

text \<open>Lines 113 to 115: the names of the expanded features.\<close>

definition ohe_columns :: "preprocessor \<Rightarrow> string list" where
  "ohe_columns pre =
     get_feature_names categorical_encoder (categorical_categories pre) categorical_features"

definition binary_columns :: "preprocessor \<Rightarrow> string list" where
  "binary_columns pre =
     get_feature_names binary_encoder (binary_categories pre) binary_features"

definition features :: "preprocessor \<Rightarrow> string list" where
  "features pre = ohe_columns pre @ binary_columns pre @ numerical_features"

subsection \<open>The penalty grid and the ridge model (lines 84 to 86, 105)\<close>

text \<open>
  \<open>np.arange(start, stop, step)\<close> on integers with a positive step: the values
  \<open>start + k * step\<close> below \<open>stop\<close>, that is \<open>\<lceil>(stop - start) / step\<rceil>\<close> of them.
\<close>

definition np_arange :: "int \<Rightarrow> int \<Rightarrow> int \<Rightarrow> int list" where
  "np_arange start stop step =
     map (\<lambda>k. start + int k * step)
       [0..<nat \<lceil>(of_int (stop - start) :: rat) / of_int step\<rceil>]"

text \<open>Line 85: \<^verbatim>\<open>alphas = 10.0**np.arange(-5,5,1)\<close>.\<close>

definition alphas :: "rat list" where
  "alphas = map (\<lambda>e. 10 powi e) (np_arange (- 5) 5 1)"

text \<open>The fitted attributes \<open>alpha_\<close>, \<open>coef_\<close> and \<open>intercept_\<close> of the library's
  ridge model; a name cannot end in an underscore here, so each ends in a prime.\<close>

record ridge_model =
  alpha' :: rat
  coef' :: "rat list"
  intercept' :: rat

subsection \<open>Cross-validation calls (lines 59 to 98)\<close>

datatype regressor =
    DummyRegressor
  | RidgeCV_pipeline "rat list"
  | RandomForest_pipeline nat nat nat
  | XGB_pipeline nat nat nat

text \<open>The arguments \<open>main\<close> gives to \<open>cross_validate\<close>, besides the data.\<close>

record cv_call =
  estimator :: regressor
  cv :: "nat option"
  return_train_score :: bool
  scoring :: string
  n_jobs :: "int option"

text \<open>What one fold yields: two timings, the score on the held-out part, the score on the
  training part.\<close>

record fold_scores =
  fit_time :: rat
  score_time :: rat
  test_score :: rat
  train_score :: rat

subsection \<open>The numerical library\<close>

text \<open>
  The routines \<open>main\<close> calls without containing them:
  \<^item> \<open>argsort\<close>: \<open>np.argsort\<close> with its default \<open>kind\<close>;
  \<^item> \<open>ridge_cv_error alpha X y\<close>: the internal cross-validated error \<open>RidgeCV\<close>
    computes for a penalty on a design matrix and a target;
  \<^item> \<open>ridge_solve alpha X y\<close>: the ridge coefficients and intercept for a penalty;
  \<^item> \<open>fit_and_score call data k i\<close>: fitting the estimator of a call on the training
    part of fold \<open>i\<close> of \<open>k\<close> and scoring it, with the call's \<open>scoring\<close>, on both
    parts;
  \<^item> \<open>r2_score y_true y_pred\<close>: the coefficient of determination of predictions.
\<close>

record library =
  argsort :: "rat list \<Rightarrow> nat list"
  ridge_cv_error :: "rat \<Rightarrow> rat list list \<Rightarrow> rat list \<Rightarrow> rat"
  ridge_solve :: "rat \<Rightarrow> rat list list \<Rightarrow> rat list \<Rightarrow> rat list \<times> rat"
  fit_and_score :: "cv_call \<Rightarrow> house list \<Rightarrow> nat \<Rightarrow> nat \<Rightarrow> fold_scores"
  r2_score :: "rat list \<Rightarrow> rat list \<Rightarrow> rat"

text \<open>
  Modelled from the spec: \<open>RidgeCV(alphas=alphas).fit\<close> of scikit-learn, whose code is
  not in the repository. Section 4.4: it searches the grid of penalty strengths,
  selects the strength minimizing internal cross-validated error, then fits the final
  coefficients. Of two strengths with the same error the one met first is kept.
\<close>

definition ridgecv_fit :: "library \<Rightarrow> rat list \<Rightarrow> rat list list \<Rightarrow> rat list \<Rightarrow> ridge_model" where
  "ridgecv_fit lib grid X y =
     (let a = arg_min_list (\<lambda>a. ridge_cv_error lib a X y) grid;
          (w, b) = ridge_solve lib a X y
      in \<lparr>alpha' = a, coef' = w, intercept' = b\<rparr>)"

definition ridge_predict :: "ridge_model \<Rightarrow> rat list \<Rightarrow> rat" where
  "ridge_predict m x = intercept' m + sum_list (map2 (*) (coef' m) x)"

text \<open>
  The pipeline \<open>ridgecv = make_pipeline(preprocessor, RidgeCV(alphas=alphas))\<close>:
  \<open>fit\<close> (line 105) fits the preprocessor on the train set, transforms the train set
  and fits the ridge model on the result; \<open>predict\<close> (line 106) transforms the rows with
  the fitted preprocessor and applies the linear model.
\<close>

definition design_matrix :: "preprocessor \<Rightarrow> house list \<Rightarrow> py_error + rat list list" where
  "design_matrix pre rows = comprehension (preprocessor_transform pre) rows"

definition n_columns :: "rat list list \<Rightarrow> nat" where
  "n_columns X = (case X of [] \<Rightarrow> 0 | r # _ \<Rightarrow> length r)"

definition ridgecv_pipeline_fit ::
    "library \<Rightarrow> house list \<Rightarrow> py_error + preprocessor \<times> ridge_model" where
  "ridgecv_pipeline_fit lib train =
     (let pre = preprocessor_fit train
      in case design_matrix pre train of
           Inl e \<Rightarrow> Inl e
         | Inr X \<Rightarrow> Inr (pre, ridgecv_fit lib alphas X (map ASSESSMENT train)))"

definition ridgecv_pipeline_predict ::
    "preprocessor \<times> ridge_model \<Rightarrow> house list \<Rightarrow> py_error + rat list" where
  "ridgecv_pipeline_predict fitted rows =
     (case design_matrix (fst fitted) rows of
        Inl e \<Rightarrow> Inl e
      | Inr X \<Rightarrow> Inr (map (ridge_predict (snd fitted)) X))"

text \<open>Lines 105 to 121 up to the coefficient table of the refit ridge model.\<close>

definition coefficient_table :: "library \<Rightarrow> house list \<Rightarrow> py_error + feature_table" where
  "coefficient_table lib train =
     (case ridgecv_pipeline_fit lib train of
        Inl e \<Rightarrow> Inl e
      | Inr fitted \<Rightarrow>
          make_feature_table (argsort lib) (features (fst fitted)) (coef' (snd fitted)))"

text \<open>
  What the script relies on from the ridge solver: one coefficient per column of the
  design matrix, for every penalty of the grid.
\<close>

definition solver_shape :: "library \<Rightarrow> rat list list \<Rightarrow> rat list \<Rightarrow> bool" where
  "solver_shape lib X y \<longleftrightarrow>
     list_all (\<lambda>a. length (fst (ridge_solve lib a X y)) = n_columns X) alphas"

subsection \<open>Cross-validation scores (lines 56 to 102)\<close>

text \<open>
  Modelled from the spec: \<open>cross_validate\<close> of scikit-learn, whose code is not in the
  repository. Section 4.5: k-fold cross-validation, every fold fitted and scored on its
  held-out part and, when \<open>return_train_score\<close> is set, on its training part; 5 folds
  when the call names no \<open>cv\<close> (the baseline). The result is a dictionary from the
  metric name to the array of per-fold values, in the key order of section 6.
\<close>

definition n_splits :: "nat option \<Rightarrow> nat" where
  "n_splits c = (case c of None \<Rightarrow> 5 | Some k \<Rightarrow> k)"

definition cross_validate :: "library \<Rightarrow> cv_call \<Rightarrow> house list \<Rightarrow> (string \<times> rat list) list" where
  "cross_validate lib call train =
     (let k = n_splits (cv call);
          folds = map (fit_and_score lib call train k) [0..<k]
      in [(''fit_time'', map fit_time folds),
          (''score_time'', map score_time folds),
          (''test_score'', map test_score folds)]
         @ (if return_train_score call then [(''train_score'', map train_score folds)] else []))"

text \<open>The four calls of \<open>main\<close>, lines 61, 87, 92 and 97.\<close>

definition dummy_call :: cv_call where
  "dummy_call =
     \<lparr>estimator = DummyRegressor, cv = None, return_train_score = True,
      scoring = ''r2'', n_jobs = None\<rparr>"

definition ridgecv_call :: cv_call where
  "ridgecv_call =
     \<lparr>estimator = RidgeCV_pipeline alphas, cv = Some 10, return_train_score = True,
      scoring = ''r2'', n_jobs = None\<rparr>"

definition random_forest_call :: cv_call where
  "random_forest_call =
     \<lparr>estimator = RandomForest_pipeline 5 70 123, cv = Some 5, return_train_score = True,
      scoring = ''r2'', n_jobs = Some (- 1)\<rparr>"

definition xgb_call :: cv_call where
  "xgb_call =
     \<lparr>estimator = XGB_pipeline 5 70 123, cv = Some 5, return_train_score = True,
      scoring = ''r2'', n_jobs = Some (- 1)\<rparr>"

text \<open>
  \<^verbatim>\<open>pd.DataFrame(scores).mean().round(4).tolist()\<close>: the mean of every column of the
  per-fold table, rounded to four decimals, in column order. Every column has as many
  entries as there are folds, at least five in \<open>main\<close>.
\<close>

definition mean :: "rat list \<Rightarrow> rat" where
  "mean xs = sum_list xs / of_nat (length xs)"

definition mean_scores :: "(string \<times> rat list) list \<Rightarrow> rat list" where
  "mean_scores scores = map (\<lambda>(k, v). np_round 4 (mean v)) scores"

definition store_scores :: "library \<Rightarrow> house list \<Rightarrow> (string \<times> rat list) list" where
  "store_scores lib train =
     [(''dummy_score'', mean_scores (cross_validate lib dummy_call train)),
      (''ridgecv_score'', mean_scores (cross_validate lib ridgecv_call train)),
      (''random_forest'', mean_scores (cross_validate lib random_forest_call train)),
      (''XGB_Regression'', mean_scores (cross_validate lib xgb_call train))]"

subsection \<open>Tables as they are written\<close>

datatype cell = Str string | Num rat

record table =
  header :: "string list"
  rows :: "cell list list"

text \<open>
  Lines 101 and 102: \<^verbatim>\<open>pd.DataFrame(store_scores, index = dummy_scores.keys())\<close>
  followed by \<open>reset_index\<close>. The constructor raises \<open>ValueError\<close> when a column does
  not have one value per index label; \<open>reset_index\<close> turns the labels into a first
  column named \<open>index\<close>.
\<close>

definition scores_df :: "library \<Rightarrow> house list \<Rightarrow> py_error + table" where
  "scores_df lib train =
     (let dummy_scores = cross_validate lib dummy_call train;
          store = store_scores lib train;
          keys = map fst dummy_scores
      in if list_all (\<lambda>(k, v). length v = length keys) store
         then Inr \<lparr>header = ''index'' # map fst store,
                   rows = map (\<lambda>i. Str (keys ! i) # map (\<lambda>(k, v). Num (v ! i)) store)
                            [0..<length keys]\<rparr>
         else Inl ValueError)"

text \<open>Lines 107 to 110 and line 121, the two other tables, as data frames.\<close>

definition test_set_score :: "rat \<Rightarrow> table" where
  "test_set_score score =
     \<lparr>header = [''index'', ''RidgeCV''], rows = [[Str ''test_score'', Num score]]\<rparr>"

definition feature_frame :: "feature_table \<Rightarrow> table" where
  "feature_frame t =
     \<lparr>header = [''feature'', ''coefficient''],
      rows = map2 (\<lambda>f c. [Str f, Num c]) (feature t) (coefficient t)\<rparr>"

text \<open>A cell holds a number with at most \<open>d\<close> decimals when rounding leaves it as it is.\<close>

fun rounded_cell :: "nat \<Rightarrow> cell \<Rightarrow> bool" where
  "rounded_cell d (Num v) = (np_round d v = v)"
| "rounded_cell d (Str s) = False"

subsection \<open>Writing the tables (lines 124 to 141)\<close>

text \<open>
  \<open>os.path.dirname\<close>: the part of the path before its last slash, without the slashes
  that end it unless it consists of slashes only.
\<close>

definition dirname :: "string \<Rightarrow> string" where
  "dirname p =
     (let head = rev (dropWhile (\<lambda>c. c \<noteq> CHR ''/'') (rev p))
      in if head \<noteq> [] \<and> \<not> list_all (\<lambda>c. c = CHR ''/'') head
         then rev (dropWhile (\<lambda>c. c = CHR ''/'') (rev head))
         else head)"

text \<open>A directory name and the directories above it, up to the working directory or
  the root.\<close>

function parents :: "string \<Rightarrow> string list" where
  "parents d = (if length (dirname d) < length d then d # parents (dirname d) else [])"
  by pat_completeness auto
termination
  by (relation "measure length") auto

declare parents.simps [simp del]

text \<open>
  The file system the script writes to, as far as \<open>main\<close> can observe it: the
  directories that exist, the tables stored in files, and for every path the failure of
  any other cause (permissions, a full disk) the operating system would report for an
  operation on it. \<open>trace\<close> records the operations \<open>main\<close> attempted, in order.
\<close>

datatype fs_op = ToCsv string | Makedirs string

record filesystem =
  dirs :: "string set"
  files :: "string \<rightharpoonup> table"
  fault :: "string \<rightharpoonup> py_error"
  trace :: "fs_op list"

definition isdir :: "filesystem \<Rightarrow> string \<Rightarrow> bool" where
  "isdir fs d \<longleftrightarrow> d \<in> dirs fs \<or> (d \<noteq> [] \<and> list_all (\<lambda>c. c = CHR ''/'') d)"

text \<open>
  \<open>DataFrame.to_csv(path, index=False)\<close>: opening the file fails when the directory
  part of the path names no directory (an empty directory part is the working
  directory); otherwise the operating system may refuse for another cause; otherwise
  the table is stored. The result is the exception raised, if any, and the file system
  afterwards.
\<close>

definition to_csv :: "filesystem \<Rightarrow> string \<Rightarrow> table \<Rightarrow> py_error option \<times> filesystem" where
  "to_csv fs p t =
     (let fs1 = fs\<lparr>trace := trace fs @ [ToCsv p]\<rparr>
      in if dirname p \<noteq> [] \<and> \<not> isdir fs (dirname p) then (Some FileNotFoundError, fs1)
         else (case fault fs p of
                 Some e \<Rightarrow> (Some e, fs1)
               | None \<Rightarrow> (None, fs1\<lparr>files := (files fs)(p \<mapsto> t)\<rparr>)))"

text \<open>
  \<open>os.makedirs(name)\<close> with \<open>exist_ok\<close> left at \<open>False\<close>: an empty name is no
  directory, an existing directory is an error, otherwise the directory and every
  missing directory above it are created unless the operating system refuses.
\<close>

definition makedirs :: "filesystem \<Rightarrow> string \<Rightarrow> py_error option \<times> filesystem" where
  "makedirs fs name =
     (let fs1 = fs\<lparr>trace := trace fs @ [Makedirs name]\<rparr>
      in if name = [] then (Some FileNotFoundError, fs1)
         else if isdir fs name then (Some FileExistsError, fs1)
         else (case fault fs name of
                 Some e \<Rightarrow> (Some e, fs1)
               | None \<Rightarrow> (None, fs1\<lparr>dirs := dirs fs \<union> set (parents name)\<rparr>)))"

text \<open>
  One block of lines 125 to 141:
  \<^verbatim>\<open>
  try:
      scores_df.to_csv(out_file1, index=False)
  except:
      os.makedirs(os.path.dirname(out_file1))
      scores_df.to_csv(out_file1, index=False)
  \<close>
  The bare \<open>except\<close> takes every exception, whatever its class.
\<close>

definition save_table :: "filesystem \<Rightarrow> string \<Rightarrow> table \<Rightarrow> py_error option \<times> filesystem" where
  "save_table fs out_file t =
     (case to_csv fs out_file t of
        (None, fs1) \<Rightarrow> (None, fs1)
      | (Some _, fs1) \<Rightarrow>
          (case makedirs fs1 (dirname out_file) of
             (Some e, fs2) \<Rightarrow> (Some e, fs2)
           | (None, fs2) \<Rightarrow> to_csv fs2 out_file t))"

text \<open>The three blocks in sequence; an exception that leaves a block ends \<open>main\<close>.\<close>

definition write_outputs ::
    "filesystem \<Rightarrow> string \<Rightarrow> table \<Rightarrow> string \<Rightarrow> table \<Rightarrow> string \<Rightarrow> table
       \<Rightarrow> py_error option \<times> filesystem" where
  "write_outputs fs out_file1 t1 out_file2 t2 out_file3 t3 =
     (case save_table fs out_file1 t1 of
        (Some e, fs1) \<Rightarrow> (Some e, fs1)
      | (None, fs1) \<Rightarrow>
          (case save_table fs1 out_file2 t2 of
             (Some e, fs2) \<Rightarrow> (Some e, fs2)
           | (None, fs2) \<Rightarrow> save_table fs2 out_file3 t3))"

subsection \<open>The whole of \<open>main\<close>\<close>

text \<open>
  \<open>main\<close> from the two tables on (reading them from \<open>in_file1\<close> and \<open>in_file2\<close> is left
  out): the scores of the four models, the refit of the ridge pipeline, its score on
  the test set, the coefficient table, and the three writes. The first exception ends
  the run and is the result, together with the file system as it is then.
\<close>

definition main ::
    "library \<Rightarrow> filesystem \<Rightarrow> house list \<Rightarrow> house list \<Rightarrow> string \<Rightarrow> string \<Rightarrow> string
       \<Rightarrow> py_error option \<times> filesystem" where
  "main lib fs train_df test_df out_file1 out_file2 out_file3 =
     (case scores_df lib train_df of
        Inl e \<Rightarrow> (Some e, fs)
      | Inr scores \<Rightarrow>
          (case ridgecv_pipeline_fit lib train_df of
             Inl e \<Rightarrow> (Some e, fs)
           | Inr ridgecv \<Rightarrow>
               (case ridgecv_pipeline_predict ridgecv test_df of
                  Inl e \<Rightarrow> (Some e, fs)
                | Inr predictions \<Rightarrow>
                    (case make_feature_table (argsort lib) (features (fst ridgecv))
                            (coef' (snd ridgecv)) of
                       Inl e \<Rightarrow> (Some e, fs)
                     | Inr ft \<Rightarrow>
                         write_outputs fs
                           out_file1 scores
                           out_file2
                           (test_set_score (r2_score lib (map ASSESSMENT test_df) predictions))
                           out_file3 (feature_frame ft)))))"


text \<open>
  An instance of the numerical library, to evaluate the definitions on: a stable sort, a
  cross-validated error that grows with the penalty, a solver that returns one
  coefficient per column, and folds with fixed timings and scores.
\<close>

definition example_library :: library where
  "example_library =
     \<lparr>argsort = stable_argsort,
      ridge_cv_error = (\<lambda>a X y. a),
      ridge_solve = (\<lambda>a X y. (map (\<lambda>j. (of_nat (j * 7 mod 11) - 5) / 16) [0..<n_columns X], 0)),
      fit_and_score = (\<lambda>call train k i.
         \<lparr>fit_time = 1 / 3, score_time = 1 / 7,
          test_score = of_nat i / of_nat k, train_score = 2 / 3\<rparr>),
      r2_score = (\<lambda>y_true y_pred. 1 / 2)\<rparr>"

text \<open>
  Two conditions used to state properties. A row's binary labels are known to a fitted
  preprocessor when each was recorded for its column at fit time (the binary encoder
  raises on any other label). The train set meets the expectations of the numerical
  library when the ridge solver returns one coefficient per column of the design
  matrix and \<open>np.argsort\<close> sorts the fitted coefficient vector.
\<close>

definition known_binary_labels :: "preprocessor \<Rightarrow> house \<Rightarrow> bool" where
  "known_binary_labels pre r \<longleftrightarrow>
     list_all2 (\<lambda>cats v. v \<in> set cats) (binary_categories pre) (binary_values r)"

definition library_contract :: "library \<Rightarrow> house list \<Rightarrow> bool" where
  "library_contract lib train \<longleftrightarrow>
     (case design_matrix (preprocessor_fit train) train of
        Inl e \<Rightarrow> True
      | Inr X \<Rightarrow>
          solver_shape lib X (map ASSESSMENT train) \<and>
          argsort_sorts (argsort lib)
            (coef' (ridgecv_fit lib alphas X (map ASSESSMENT train))))"

text \<open>
  A small train set and a test row, to evaluate the definitions on. The train set has
  three building descriptions, one of them missing, and both labels in every binary
  column; the description of the test row does not occur in the train set.
\<close>

definition example_train :: "house list" where
  "example_train =
     [\<lparr>AGE = Some 12, BLDG_DESC = Some ''Bungalow'', BLDG_FEET = Some 1200,
       GARAGE = ''Y'', FIREPLACE = ''Y'', BASEMENT = ''Y'', BSMTDEVL = ''Y'',
       LATITUDE = Some (107 / 2), LONGITUDE = Some (- 227 / 2), ASSESSMENT = 350000\<rparr>,
      \<lparr>AGE = Some 40, BLDG_DESC = Some ''Duplex'', BLDG_FEET = None,
       GARAGE = ''N'', FIREPLACE = ''N'', BASEMENT = ''N'', BSMTDEVL = ''N'',
       LATITUDE = Some (214 / 4), LONGITUDE = Some (- 113), ASSESSMENT = 280000\<rparr>,
      \<lparr>AGE = None, BLDG_DESC = None, BLDG_FEET = Some 900,
       GARAGE = ''Y'', FIREPLACE = ''N'', BASEMENT = ''Y'', BSMTDEVL = ''N'',
       LATITUDE = Some (107 / 2), LONGITUDE = Some (- 113), ASSESSMENT = 240000\<rparr>]"

definition example_test_row :: house where
  "example_test_row =
     \<lparr>AGE = Some 3, BLDG_DESC = Some ''Condo'', BLDG_FEET = Some 800,
      GARAGE = ''N'', FIREPLACE = ''Y'', BASEMENT = ''N'', BSMTDEVL = ''N'',
      LATITUDE = Some 53, LONGITUDE = Some (- 113), ASSESSMENT = 200000\<rparr>"

section \<open>Properties\<close>

subsection \<open>Rounding is monotone\<close>

lemma rint_bounds: "\<lfloor>x\<rfloor> \<le> rint x \<and> rint x \<le> \<lfloor>x\<rfloor> + 1"
  by (simp add: rint_def Let_def)

lemma rint_mono:
  assumes "x \<le> y"
  shows "rint x \<le> rint y"
proof (cases "\<lfloor>x\<rfloor> = \<lfloor>y\<rfloor>")
  case True
  with assms show ?thesis
    by (auto simp: rint_def Let_def)
next
  case False
  with assms have "\<lfloor>x\<rfloor> < \<lfloor>y\<rfloor>"
    using floor_mono [of x y] by linarith
  then have "rint x \<le> \<lfloor>y\<rfloor>"
    using rint_bounds [of x] by linarith
  then show ?thesis
    using rint_bounds [of y] by linarith
qed

lemma np_round_mono:
  assumes "x \<le> y"
  shows "np_round d x \<le> np_round d y"
proof -
  have "x * 10 ^ d \<le> y * 10 ^ d"
    using assms by (simp add: mult_right_mono)
  then have "rint (x * 10 ^ d) \<le> rint (y * 10 ^ d)"
    by (rule rint_mono)
  then show ?thesis
    by (simp add: np_round_def divide_right_mono)
qed

subsection \<open>List comprehensions over indices\<close>

lemma comprehension_index_Inr:
  assumes "comprehension (py_index xs) inds = Inr ys"
  shows "ys = map (\<lambda>i. xs ! i) inds \<and> list_all (\<lambda>i. i < length xs) inds"
  using assms
  by (induction inds arbitrary: ys)
     (auto simp: py_index_def split: sum.splits if_splits)

lemma comprehension_index_total:
  assumes "list_all (\<lambda>i. i < length xs) inds"
  shows "comprehension (py_index xs) inds = Inr (map (\<lambda>i. xs ! i) inds)"
  using assms by (induction inds) (auto simp: py_index_def)

lemma make_feature_table_Inr:
  assumes "make_feature_table srt feats coef = Inr t"
  shows "feature t = map (\<lambda>i. feats ! i) (srt coef)"
    and "coefficient t = map (\<lambda>i. np_round 2 (coef ! i)) (srt coef)"
    and "list_all (\<lambda>i. i < length feats \<and> i < length coef) (srt coef)"
proof -
  from assms obtain fs ws where
    fs: "comprehension (py_index feats) (srt coef) = Inr fs" and
    ws: "comprehension (py_index (map (np_round 2) coef)) (srt coef) = Inr ws" and
    t: "t = \<lparr>feature = fs, coefficient = ws\<rparr>"
    by (auto simp: make_feature_table_def Let_def split: sum.splits)
  note F = comprehension_index_Inr [OF fs] and W = comprehension_index_Inr [OF ws]
  show "feature t = map (\<lambda>i. feats ! i) (srt coef)"
    using F t by simp
  have in_range: "list_all (\<lambda>i. i < length coef) (srt coef)"
    using W by simp
  then show "coefficient t = map (\<lambda>i. np_round 2 (coef ! i)) (srt coef)"
    using W t by (simp add: list_all_iff)
  show "list_all (\<lambda>i. i < length feats \<and> i < length coef) (srt coef)"
    using F in_range by (simp add: list_all_iff)
qed

subsection \<open>Sorts that meet the contract of \<open>np.argsort\<close>\<close>

lemma stable_argsort_sorts: "argsort_sorts stable_argsort a"
  by (simp add: argsort_sorts_def stable_argsort_def)

lemma reversing_argsort_sorts: "argsort_sorts reversing_argsort a"
  by (simp add: argsort_sorts_def reversing_argsort_def)

lemma argsort_in_range:
  assumes "argsort_sorts srt a"
  shows "list_all (\<lambda>i. i < length a) (srt a)"
proof -
  have "set (srt a) = set [0..<length a]"
    using assms by (metis argsort_sorts_def set_mset_mset)
  then show ?thesis
    by (simp add: list_all_iff)
qed

lemma sorted_map_np_round:
  assumes "sorted xs"
  shows "sorted (map (np_round d) xs)"
  using assms by (induction xs) (auto simp: np_round_mono)

subsection \<open>The coefficient table is in ascending order\<close>

text \<open>
  C1. The rows of the coefficient table are in ascending order of the coefficient
  column: each written coefficient is at most the one in the next row. The written
  values are the rounded ones, the order comes from sorting the unrounded ones, and
  rounding is monotone. Holds for every sort that meets the contract of \<open>np.argsort\<close>
  and every coefficient vector for which the table is built.
\<close>

theorem coefficient_table_sorted:
  assumes "argsort_sorts srt coef"
    and "make_feature_table srt feats coef = Inr t"
  shows "sorted (coefficient t) \<and>
         (\<forall>i. Suc i < length (coefficient t) \<longrightarrow> coefficient t ! i \<le> coefficient t ! Suc i)"
proof -
  have c: "coefficient t = map (np_round 2) (map (\<lambda>i. coef ! i) (srt coef))"
    using make_feature_table_Inr(2) [OF assms(2)] by simp
  have "sorted (map (\<lambda>i. coef ! i) (srt coef))"
    using assms(1) by (simp add: argsort_sorts_def)
  then have s: "sorted (coefficient t)"
    unfolding c by (rule sorted_map_np_round)
  then have "\<forall>i. Suc i < length (coefficient t) \<longrightarrow> coefficient t ! i \<le> coefficient t ! Suc i"
    by (simp add: sorted_iff_nth_Suc)
  with s show ?thesis by simp
qed

theorem coefficient_table_sorted_witness:
  "argsort_sorts stable_argsort [3 / 2, - 1 / 4, 1 / 200, 1 / 250] \<and>
   make_feature_table stable_argsort [''a'', ''b'', ''c'', ''d''] [3 / 2, - 1 / 4, 1 / 200, 1 / 250]
     = Inr \<lparr>feature = [''b'', ''d'', ''c'', ''a''], coefficient = [- 1 / 4, 0, 0, 3 / 2]\<rparr> \<and>
   sorted [- 1 / 4, 0, 0, 3 / 2 :: rat]"
proof -
  have h1: "argsort_sorts stable_argsort [3 / 2, - 1 / 4, 1 / 200, 1 / 250]"
    by code_simp
  have h2: "make_feature_table stable_argsort [''a'', ''b'', ''c'', ''d''] [3 / 2, - 1 / 4, 1 / 200, 1 / 250]
     = Inr \<lparr>feature = [''b'', ''d'', ''c'', ''a''], coefficient = [- 1 / 4, 0, 0, 3 / 2]\<rparr>"
    by code_simp
  from coefficient_table_sorted [OF h1 h2] h1 h2 show ?thesis
    by simp
qed

subsection \<open>Written coefficients are rounded, rows follow the unrounded values\<close>

lemma rint_of_int: "rint (of_int k) = k"
  by (simp add: rint_def Let_def)

lemma np_round_idem: "np_round d (np_round d x) = np_round d x"
  by (simp add: np_round_def rint_of_int)

lemma make_feature_table_length:
  assumes "argsort_sorts srt coef"
  shows "length (srt coef) = length coef"
proof -
  have "size (mset (srt coef)) = size (mset [0..<length coef])"
    using assms by (simp add: argsort_sorts_def)
  then show ?thesis by simp
qed

text \<open>
  C10. Every coefficient written to the third table is rounded to two decimals (rounding
  it again changes nothing), the value in row \<open>j\<close> is the rounded coefficient of the
  feature \<open>np.argsort\<close> put at position \<open>j\<close>, and the rows follow the unrounded values:
  a row whose unrounded coefficient is strictly smaller than that of another row comes
  before it, also when both print the same rounded value.
\<close>

theorem coefficients_rounded_rows_by_unrounded:
  assumes "argsort_sorts srt coef"
    and "make_feature_table srt feats coef = Inr t"
  shows "length (coefficient t) = length coef \<and>
         list_all (\<lambda>w. np_round 2 w = w) (coefficient t) \<and>
         (\<forall>j. j < length coef \<longrightarrow> coefficient t ! j = np_round 2 (coef ! (srt coef ! j))) \<and>
         (\<forall>j k. j < length coef \<and> k < length coef \<and>
                 coef ! (srt coef ! j) < coef ! (srt coef ! k) \<longrightarrow> j < k)"
proof -
  note len = make_feature_table_length [OF assms(1)]
  have c: "coefficient t = map (\<lambda>i. np_round 2 (coef ! i)) (srt coef)"
    by (rule make_feature_table_Inr(2) [OF assms(2)])
  have s: "sorted (map (\<lambda>i. coef ! i) (srt coef))"
    using assms(1) by (simp add: argsort_sorts_def)
  have 1: "length (coefficient t) = length coef"
    using c len by simp
  have 2: "list_all (\<lambda>w. np_round 2 w = w) (coefficient t)"
    unfolding c by (simp add: list_all_iff np_round_idem)
  have 3: "\<forall>j. j < length coef \<longrightarrow> coefficient t ! j = np_round 2 (coef ! (srt coef ! j))"
    using c len by simp
  have 4: "j < k" if "j < length coef" "k < length coef"
    "coef ! (srt coef ! j) < coef ! (srt coef ! k)" for j k
  proof (rule ccontr)
    assume "\<not> j < k"
    then have "k \<le> j" by simp
    then have "map (\<lambda>i. coef ! i) (srt coef) ! k \<le> map (\<lambda>i. coef ! i) (srt coef) ! j"
      using s that(1) len by (simp add: sorted_iff_nth_mono del: nth_map)
    then show False
      using that len by simp
  qed
  from 1 2 3 4 show ?thesis by blast
qed

theorem coefficients_rounded_rows_by_unrounded_witness:
  "argsort_sorts stable_argsort [1 / 250, 1 / 1000] \<and>
   make_feature_table stable_argsort [''AGE'', ''BLDG_FEET''] [1 / 250, 1 / 1000]
     = Inr \<lparr>feature = [''BLDG_FEET'', ''AGE''], coefficient = [0, 0]\<rparr> \<and>
   stable_argsort [1 / 250, 1 / 1000] = [1, 0] \<and>
   list_all (\<lambda>w. np_round 2 w = w) [0, 0]"
proof -
  have h1: "argsort_sorts stable_argsort [1 / 250, 1 / 1000]"
    by code_simp
  have h2: "make_feature_table stable_argsort [''AGE'', ''BLDG_FEET''] [1 / 250, 1 / 1000]
     = Inr \<lparr>feature = [''BLDG_FEET'', ''AGE''], coefficient = [0, 0]\<rparr>"
    by code_simp
  have h3: "stable_argsort [1 / 250, 1 / 1000] = [1, 0]"
    by code_simp
  from coefficients_rounded_rows_by_unrounded [OF h1 h2] h1 h2 h3 show ?thesis
    by simp
qed

subsection \<open>Rows with equal coefficients\<close>









subsection \<open>Writing a table into a directory that does not exist\<close>

lemma dropWhile_same_length:
  assumes "length (dropWhile P xs) = length xs"
  shows "dropWhile P xs = xs"
proof -
  have "length (takeWhile P xs) + length (dropWhile P xs) = length xs"
    by (metis length_append takeWhile_dropWhile_id)
  with assms have "takeWhile P xs = []" by simp
  then show ?thesis
    by (metis append_Nil takeWhile_dropWhile_id)
qed

lemma dirname_shorter:
  assumes "d \<noteq> []" and "\<not> list_all (\<lambda>c. c = CHR ''/'') d"
  shows "length (dirname d) < length d"
proof -
  define head where "head = rev (dropWhile (\<lambda>c. c \<noteq> CHR ''/'') (rev d))"
  have le: "length head \<le> length d"
    unfolding head_def using length_dropWhile_le [of _ "rev d"] by simp
  show ?thesis
  proof (cases "head \<noteq> [] \<and> \<not> list_all (\<lambda>c. c = CHR ''/'') head")
    case True
    then have ne: "dropWhile (\<lambda>c. c \<noteq> CHR ''/'') (rev d) \<noteq> []"
      by (simp add: head_def)
    then have "hd (dropWhile (\<lambda>c. c \<noteq> CHR ''/'') (rev d)) = CHR ''/''"
      using hd_dropWhile [of "\<lambda>c. c \<noteq> CHR ''/''" "rev d"] by simp
    then have "hd (rev head) = CHR ''/''"
      by (simp add: head_def)
    moreover have "rev head \<noteq> []"
      using True by simp
    ultimately have "length (dropWhile (\<lambda>c. c = CHR ''/'') (rev head)) < length (rev head)"
      by (cases "rev head") (auto intro: le_less_trans [OF length_dropWhile_le])
    then have "length (dirname d) < length head"
      using True by (simp add: dirname_def Let_def head_def [symmetric])
    with le show ?thesis by simp
  next
    case False
    then have eq: "dirname d = head"
      by (auto simp add: dirname_def Let_def head_def [symmetric])
    have "head \<noteq> d"
    proof
      assume "head = d"
      with False assms show False by simp
    qed
    moreover have "length head = length d \<Longrightarrow> head = d"
    proof -
      assume l: "length head = length d"
      have "length (dropWhile (\<lambda>c. c \<noteq> CHR ''/'') (rev d)) = length (rev d)"
        using l by (simp add: head_def)
      then have "dropWhile (\<lambda>c. c \<noteq> CHR ''/'') (rev d) = rev d"
        by (rule dropWhile_same_length)
      then show "head = d" by (simp add: head_def)
    qed
    ultimately show ?thesis
      using le eq by (cases "length head = length d") auto
  qed
qed


lemma dirname_in_parents:
  assumes "d \<noteq> []" and "\<not> list_all (\<lambda>c. c = CHR ''/'') d"
  shows "d \<in> set (parents d)"
  using dirname_shorter [OF assms] by (subst parents.simps) simp

lemma to_csv_missing_directory:
  assumes "dirname p \<noteq> []" and "\<not> isdir fs (dirname p)"
  shows "to_csv fs p t = (Some FileNotFoundError, fs\<lparr>trace := trace fs @ [ToCsv p]\<rparr>)"
  using assms by (simp add: to_csv_def Let_def)

lemma to_csv_success:
  assumes "dirname p = [] \<or> isdir fs (dirname p)" and "fault fs p = None"
  shows "to_csv fs p t =
           (None, fs\<lparr>trace := trace fs @ [ToCsv p], files := (files fs)(p \<mapsto> t)\<rparr>)"
  using assms by (auto simp add: to_csv_def Let_def)

lemma makedirs_success:
  assumes "name \<noteq> []" and "\<not> isdir fs name" and "fault fs name = None"
  shows "makedirs fs name =
           (None, fs\<lparr>trace := trace fs @ [Makedirs name],
                      dirs := dirs fs \<union> set (parents name)\<rparr>)"
  using assms by (simp add: makedirs_def Let_def)

text \<open>
  C3. When the first write of a table fails because the directory of its path does not
  exist, and the operating system has no other objection to the directory or the file,
  the block creates the directory together with every missing directory above it,
  writes again exactly once, and ends without an exception with the table stored at the
  path: three operations in all, the failed write, \<open>makedirs\<close>, the second write. The
  three blocks of \<open>main\<close> are this block applied to the three paths.
\<close>

theorem save_table_creates_missing_directory:
  assumes "dirname out_file \<noteq> []" and "\<not> isdir fs (dirname out_file)"
    and "fault fs out_file = None" and "fault fs (dirname out_file) = None"
  shows "fst (to_csv fs out_file t) = Some FileNotFoundError \<and>
         save_table fs out_file t =
           (None, fs\<lparr>trace := trace fs @ [ToCsv out_file, Makedirs (dirname out_file), ToCsv out_file],
                      dirs := dirs fs \<union> set (parents (dirname out_file)),
                      files := (files fs)(out_file \<mapsto> t)\<rparr>) \<and>
         dirname out_file \<in> set (parents (dirname out_file))"
proof -
  let ?d = "dirname out_file"
  let ?fs1 = "fs\<lparr>trace := trace fs @ [ToCsv out_file]\<rparr>"
  let ?fs2 = "?fs1\<lparr>trace := trace ?fs1 @ [Makedirs ?d], dirs := dirs ?fs1 \<union> set (parents ?d)\<rparr>"
  have first: "to_csv fs out_file t = (Some FileNotFoundError, ?fs1)"
    by (rule to_csv_missing_directory [OF assms(1,2)])
  have not_root: "\<not> list_all (\<lambda>c. c = CHR ''/'') ?d"
    using assms(1,2) by (simp add: isdir_def)
  have mem: "?d \<in> set (parents ?d)"
    by (rule dirname_in_parents [OF assms(1) not_root])
  have "\<not> isdir ?fs1 ?d" and "fault ?fs1 ?d = None"
    using assms(2,4) by (simp_all add: isdir_def)
  then have mk: "makedirs ?fs1 ?d = (None, ?fs2)"
    using assms(1) by (rule makedirs_success [rotated])
  have "isdir ?fs2 ?d" and "fault ?fs2 out_file = None"
    using mem assms(3) by (simp_all add: isdir_def)
  then have second: "to_csv ?fs2 out_file t =
      (None, ?fs2\<lparr>trace := trace ?fs2 @ [ToCsv out_file], files := (files ?fs2)(out_file \<mapsto> t)\<rparr>)"
    by (intro to_csv_success) simp_all
  have "save_table fs out_file t =
      (None, ?fs2\<lparr>trace := trace ?fs2 @ [ToCsv out_file], files := (files ?fs2)(out_file \<mapsto> t)\<rparr>)"
    using first mk second by (simp add: save_table_def)
  then show ?thesis
    using first mem by simp
qed


theorem save_table_creates_missing_directory_witness:
  "dirname ''results/tables/cv_scores.csv'' = ''results/tables'' \<and>
   fst (to_csv \<lparr>dirs = {}, files = Map.empty, fault = Map.empty, trace = []\<rparr>
          ''results/tables/cv_scores.csv'' (test_set_score (1 / 2))) = Some FileNotFoundError \<and>
   save_table \<lparr>dirs = {}, files = Map.empty, fault = Map.empty, trace = []\<rparr>
       ''results/tables/cv_scores.csv'' (test_set_score (1 / 2))
     = (None,
        \<lparr>dirs = {''results/tables'', ''results''},
         files = [''results/tables/cv_scores.csv'' \<mapsto> test_set_score (1 / 2)],
         fault = Map.empty,
         trace = [ToCsv ''results/tables/cv_scores.csv'', Makedirs ''results/tables'',
                  ToCsv ''results/tables/cv_scores.csv'']\<rparr>)"
proof -
  let ?fs = "\<lparr>dirs = {}, files = Map.empty, fault = Map.empty, trace = []\<rparr> :: filesystem"
  let ?p = "''results/tables/cv_scores.csv''"
  have d: "dirname ?p = ''results/tables''"
    by code_simp
  have ps: "parents ''results/tables'' = [''results/tables'', ''results'']"
    by code_simp
  have h1: "dirname ?p \<noteq> []" and h2: "\<not> isdir ?fs (dirname ?p)"
    and h3: "fault ?fs ?p = None" and h4: "fault ?fs (dirname ?p) = None"
    by (simp_all add: d isdir_def)
  from save_table_creates_missing_directory [OF h1 h2 h3 h4, of "test_set_score (1 / 2)"] d ps
  show ?thesis by simp
qed

text \<open>With no other failure pending, all three blocks end normally, whatever the paths.\<close>

lemma save_table_no_fault:
  assumes "fault fs = Map.empty"
  shows "fst (save_table fs p t) = None \<and>
         fault (snd (save_table fs p t)) = Map.empty \<and>
         files (snd (save_table fs p t)) = (files fs)(p \<mapsto> t)"
proof (cases "dirname p = [] \<or> isdir fs (dirname p)")
  case True
  then show ?thesis
    using assms by (simp add: save_table_def to_csv_success)
next
  case False
  then show ?thesis
    using assms save_table_creates_missing_directory [of p fs t] by simp
qed

lemma write_outputs_no_fault:
  assumes "fault fs = Map.empty"
  shows "fst (write_outputs fs out_file1 t1 out_file2 t2 out_file3 t3) = None \<and>
         files (snd (write_outputs fs out_file1 t1 out_file2 t2 out_file3 t3))
           = (files fs)(out_file1 \<mapsto> t1, out_file2 \<mapsto> t2, out_file3 \<mapsto> t3)"
proof -
  obtain fs1 where 1: "save_table fs out_file1 t1 = (None, fs1)"
    and f1: "fault fs1 = Map.empty" "files fs1 = (files fs)(out_file1 \<mapsto> t1)"
    using save_table_no_fault [OF assms, of out_file1 t1]
    by (cases "save_table fs out_file1 t1") auto
  obtain fs2 where 2: "save_table fs1 out_file2 t2 = (None, fs2)"
    and f2: "fault fs2 = Map.empty" "files fs2 = (files fs1)(out_file2 \<mapsto> t2)"
    using save_table_no_fault [OF f1(1), of out_file2 t2]
    by (cases "save_table fs1 out_file2 t2") auto
  from save_table_no_fault [OF f2(1), of out_file3 t3] 1 2 f1 f2 show ?thesis
    by (simp add: write_outputs_def)
qed

subsection \<open>A write that fails for another cause\<close>






subsection \<open>The penalty grid\<close>

lemma alphas_values:
  "alphas = [1 / 100000, 1 / 10000, 1 / 1000, 1 / 100, 1 / 10, 1, 10, 100, 1000, 10000]"
  by code_simp

lemma ridgecv_fit_alpha:
  "alpha' (ridgecv_fit lib grid X y) = arg_min_list (\<lambda>a. ridge_cv_error lib a X y) grid"
  by (simp add: ridgecv_fit_def Let_def case_prod_unfold)

lemma arg_min_list_least:
  fixes f :: "'a \<Rightarrow> rat"
  assumes "xs \<noteq> []"
  shows "list_all (\<lambda>x. f (arg_min_list f xs) \<le> f x) xs"
proof -
  have "f (arg_min_list f xs) = Min (f ` set xs)"
    by (rule f_arg_min_list_f [OF assms])
  then show ?thesis
    by (simp add: list_all_iff)
qed

text \<open>
  C8. The grid of penalties of the ridge model holds exactly ten values, one per decade,
  \<open>10 ^ (- 5)\<close>, \<open>10 ^ (- 4)\<close>, ..., \<open>10 ^ 3\<close>, \<open>10 ^ 4\<close>, and the penalty the fit selects is
  a value of the grid whose internal cross-validated error is least among the grid's.
\<close>

theorem ridge_penalty_grid:
  "alphas = [1 / 100000, 1 / 10000, 1 / 1000, 1 / 100, 1 / 10, 1, 10, 100, 1000, 10000] \<and>
   alphas = map (\<lambda>k. 10 powi (int k - 5)) [0..<10] \<and>
   length alphas = 10 \<and>
   alpha' (ridgecv_fit lib alphas X y) \<in> set alphas \<and>
   list_all (\<lambda>a. ridge_cv_error lib (alpha' (ridgecv_fit lib alphas X y)) X y
                    \<le> ridge_cv_error lib a X y) alphas"
proof -
  have ne: "alphas \<noteq> []"
    by (simp add: alphas_values)
  have 1: "alphas = map (\<lambda>k. 10 powi (int k - 5)) [0..<10]"
    by code_simp
  have 2: "length alphas = 10"
    by (simp add: alphas_values)
  have 3: "alpha' (ridgecv_fit lib alphas X y) \<in> set alphas"
    unfolding ridgecv_fit_alpha by (rule arg_min_list_in [OF ne])
  have 4: "list_all (\<lambda>a. ridge_cv_error lib (alpha' (ridgecv_fit lib alphas X y)) X y
                    \<le> ridge_cv_error lib a X y) alphas"
    unfolding ridgecv_fit_alpha by (rule arg_min_list_least [OF ne])
  from alphas_values 1 2 3 4 show ?thesis by blast
qed

theorem ridge_penalty_grid_witness:
  "length alphas = 10 \<and>
   alpha' (ridgecv_fit example_library alphas [[1, 2]] [3]) = 1 / 100000 \<and>
   alpha' (ridgecv_fit example_library alphas [[1, 2]] [3]) \<in> set alphas"
proof -
  have h: "alpha' (ridgecv_fit example_library alphas [[1, 2]] [3]) = 1 / 100000"
    by code_simp
  have "length alphas = 10 \<and> alpha' (ridgecv_fit example_library alphas [[1, 2]] [3]) \<in> set alphas"
    using ridge_penalty_grid [of example_library "[[1, 2]]" "[3]"] by blast
  with h show ?thesis
    by blast
qed

subsection \<open>Folds and averaged metrics\<close>

lemma cross_validate_with_train_score:
  assumes "return_train_score call"
  shows "cross_validate lib call train =
           [(''fit_time'', map (\<lambda>i. fit_time (fit_and_score lib call train (n_splits (cv call)) i)) [0..<n_splits (cv call)]),
            (''score_time'', map (\<lambda>i. score_time (fit_and_score lib call train (n_splits (cv call)) i)) [0..<n_splits (cv call)]),
            (''test_score'', map (\<lambda>i. test_score (fit_and_score lib call train (n_splits (cv call)) i)) [0..<n_splits (cv call)]),
            (''train_score'', map (\<lambda>i. train_score (fit_and_score lib call train (n_splits (cv call)) i)) [0..<n_splits (cv call)])]"
  using assms by (simp add: cross_validate_def Let_def comp_def)


lemma cross_validate_call:
  assumes "return_train_score call" and "n_splits (cv call) = k"
  shows "map fst (cross_validate lib call train)
           = [''fit_time'', ''score_time'', ''test_score'', ''train_score'']"
    and "list_all (\<lambda>(metric, values). length values = k) (cross_validate lib call train)"
    and "map_of (cross_validate lib call train) ''test_score''
           = Some (map (\<lambda>i. test_score (fit_and_score lib call train k i)) [0..<k])"
    and "map_of (cross_validate lib call train) ''train_score''
           = Some (map (\<lambda>i. train_score (fit_and_score lib call train k i)) [0..<k])"
    and "mean_scores (cross_validate lib call train)
           = map (\<lambda>(metric, values). np_round 4 (sum_list values / of_nat k))
               (cross_validate lib call train)"
    and "length (mean_scores (cross_validate lib call train)) = 4"
  using assms
  by (simp_all add: cross_validate_with_train_score mean_scores_def mean_def)

text \<open>
  C9. The baseline, the random forest and the gradient-boosted trees are cross-validated
  on 5 folds, the ridge model on 10. Every call asks for the \<open>r2\<close> score and for the
  score on the training part as well as on the held-out part, so its result has the
  four metrics, each with one value per fold; for each metric the per-fold values are
  summed and divided by the number of folds (and rounded to four decimals), one scalar
  per metric and model.
\<close>

theorem cross_validation_folds_and_means:
  "list_all (\<lambda>(call, k).
       n_splits (cv call) = k \<and> scoring call = ''r2'' \<and> return_train_score call \<and>
       map fst (cross_validate lib call train)
         = [''fit_time'', ''score_time'', ''test_score'', ''train_score''] \<and>
       list_all (\<lambda>(metric, values). length values = k) (cross_validate lib call train) \<and>
       map_of (cross_validate lib call train) ''test_score''
         = Some (map (\<lambda>i. test_score (fit_and_score lib call train k i)) [0..<k]) \<and>
       map_of (cross_validate lib call train) ''train_score''
         = Some (map (\<lambda>i. train_score (fit_and_score lib call train k i)) [0..<k]) \<and>
       mean_scores (cross_validate lib call train)
         = map (\<lambda>(metric, values). np_round 4 (sum_list values / of_nat k))
             (cross_validate lib call train) \<and>
       length (mean_scores (cross_validate lib call train)) = 4)
     [(dummy_call, 5), (ridgecv_call, 10), (random_forest_call, 5), (xgb_call, 5)]"
proof -
  have d: "return_train_score dummy_call" "n_splits (cv dummy_call) = 5" "scoring dummy_call = ''r2''"
    by (simp_all add: dummy_call_def n_splits_def)
  have r: "return_train_score ridgecv_call" "n_splits (cv ridgecv_call) = 10" "scoring ridgecv_call = ''r2''"
    by (simp_all add: ridgecv_call_def n_splits_def)
  have f: "return_train_score random_forest_call" "n_splits (cv random_forest_call) = 5"
      "scoring random_forest_call = ''r2''"
    by (simp_all add: random_forest_call_def n_splits_def)
  have x: "return_train_score xgb_call" "n_splits (cv xgb_call) = 5" "scoring xgb_call = ''r2''"
    by (simp_all add: xgb_call_def n_splits_def)
  note D = cross_validate_call [OF d(1,2), of lib train]
  note R = cross_validate_call [OF r(1,2), of lib train]
  note F = cross_validate_call [OF f(1,2), of lib train]
  note X = cross_validate_call [OF x(1,2), of lib train]
  show ?thesis
    using d r f x D R F X by simp
qed

theorem cross_validation_folds_and_means_witness:
  "n_splits (cv ridgecv_call) = 10 \<and>
   map_of (cross_validate example_library ridgecv_call []) ''test_score''
     = Some [0, 1 / 10, 1 / 5, 3 / 10, 2 / 5, 1 / 2, 3 / 5, 7 / 10, 4 / 5, 9 / 10] \<and>
   mean_scores (cross_validate example_library ridgecv_call [])
     = [3333 / 10000, 1429 / 10000, 9 / 20, 6667 / 10000] \<and>
   length (mean_scores (cross_validate example_library ridgecv_call [])) = 4"
proof -
  have h1: "map_of (cross_validate example_library ridgecv_call []) ''test_score''
     = Some [0, 1 / 10, 1 / 5, 3 / 10, 2 / 5, 1 / 2, 3 / 5, 7 / 10, 4 / 5, 9 / 10]"
    by code_simp
  have h2: "mean_scores (cross_validate example_library ridgecv_call [])
     = [3333 / 10000, 1429 / 10000, 9 / 20, 6667 / 10000]"
    by code_simp
  have "n_splits (cv ridgecv_call) = 10 \<and>
      length (mean_scores (cross_validate example_library ridgecv_call [])) = 4"
    using cross_validation_folds_and_means [of example_library "[]"]
    by (simp (no_asm_use) only: list.pred_inject split_conv) blast
  with h1 h2 show ?thesis
    by simp
qed

subsection \<open>The table of cross-validation scores\<close>

lemma mean_scores_four:
  assumes "return_train_score call"
  obtains a b c d where "mean_scores (cross_validate lib call train) = [a, b, c, d]"
    and "np_round 4 a = a" and "np_round 4 b = b" and "np_round 4 c = c" and "np_round 4 d = d"
  using assms
  by (simp add: cross_validate_with_train_score mean_scores_def np_round_idem)

text \<open>
  C5. The table of cross-validation scores is always built; it has one row per metric,
  labelled \<open>fit_time\<close>, \<open>score_time\<close>, \<open>test_score\<close> and \<open>train_score\<close> in its first column
  (named \<open>index\<close>), one column per model, named \<open>dummy_score\<close>, \<open>ridgecv_score\<close>,
  \<open>random_forest\<close> and \<open>XGB_Regression\<close>, and every value is rounded to four decimals.
\<close>

theorem scores_table_layout:
  "\<exists>df. scores_df lib train = Inr df \<and>
     header df = [''index'', ''dummy_score'', ''ridgecv_score'', ''random_forest'', ''XGB_Regression''] \<and>
     map hd (rows df) = [Str ''fit_time'', Str ''score_time'', Str ''test_score'', Str ''train_score''] \<and>
     list_all (\<lambda>r. length r = 5 \<and> list_all (rounded_cell 4) (tl r)) (rows df)"
proof -
  obtain d0 d1 d2 d3 where d: "mean_scores (cross_validate lib dummy_call train) = [d0, d1, d2, d3]"
    and dr: "np_round 4 d0 = d0" "np_round 4 d1 = d1" "np_round 4 d2 = d2" "np_round 4 d3 = d3"
    by (rule mean_scores_four [of dummy_call lib train]) (simp_all add: dummy_call_def)
  obtain r0 r1 r2 r3 where r: "mean_scores (cross_validate lib ridgecv_call train) = [r0, r1, r2, r3]"
    and rr: "np_round 4 r0 = r0" "np_round 4 r1 = r1" "np_round 4 r2 = r2" "np_round 4 r3 = r3"
    by (rule mean_scores_four [of ridgecv_call lib train]) (simp_all add: ridgecv_call_def)
  obtain f0 f1 f2 f3 where f: "mean_scores (cross_validate lib random_forest_call train) = [f0, f1, f2, f3]"
    and fr: "np_round 4 f0 = f0" "np_round 4 f1 = f1" "np_round 4 f2 = f2" "np_round 4 f3 = f3"
    by (rule mean_scores_four [of random_forest_call lib train]) (simp_all add: random_forest_call_def)
  obtain x0 x1 x2 x3 where x: "mean_scores (cross_validate lib xgb_call train) = [x0, x1, x2, x3]"
    and xr: "np_round 4 x0 = x0" "np_round 4 x1 = x1" "np_round 4 x2 = x2" "np_round 4 x3 = x3"
    by (rule mean_scores_four [of xgb_call lib train]) (simp_all add: xgb_call_def)
  have keys: "map fst (cross_validate lib dummy_call train)
      = [''fit_time'', ''score_time'', ''test_score'', ''train_score'']"
    by (simp add: cross_validate_with_train_score dummy_call_def)
  have len: "length (cross_validate lib dummy_call train) = 4"
    by (simp add: cross_validate_with_train_score dummy_call_def)
  have u: "[0..<4] = [0, 1, 2, 3]"
    by (simp add: upt_rec)
  have "scores_df lib train =
      Inr \<lparr>header = [''index'', ''dummy_score'', ''ridgecv_score'', ''random_forest'', ''XGB_Regression''],
           rows = [[Str ''fit_time'', Num d0, Num r0, Num f0, Num x0],
                   [Str ''score_time'', Num d1, Num r1, Num f1, Num x1],
                   [Str ''test_score'', Num d2, Num r2, Num f2, Num x2],
                   [Str ''train_score'', Num d3, Num r3, Num f3, Num x3]]\<rparr>"
    by (simp add: scores_df_def store_scores_def Let_def keys len d r f x u)
  then show ?thesis
    using dr rr fr xr by simp
qed


theorem scores_table_layout_witness:
  "scores_df example_library []
     = Inr \<lparr>header = [''index'', ''dummy_score'', ''ridgecv_score'', ''random_forest'',
                      ''XGB_Regression''],
            rows = [[Str ''fit_time'', Num (3333 / 10000), Num (3333 / 10000),
                     Num (3333 / 10000), Num (3333 / 10000)],
                    [Str ''score_time'', Num (1429 / 10000), Num (1429 / 10000),
                     Num (1429 / 10000), Num (1429 / 10000)],
                    [Str ''test_score'', Num (2 / 5), Num (9 / 20), Num (2 / 5), Num (2 / 5)],
                    [Str ''train_score'', Num (6667 / 10000), Num (6667 / 10000),
                     Num (6667 / 10000), Num (6667 / 10000)]]\<rparr>"
proof -
  have h: "scores_df example_library []
     = Inr \<lparr>header = [''index'', ''dummy_score'', ''ridgecv_score'', ''random_forest'',
                      ''XGB_Regression''],
            rows = [[Str ''fit_time'', Num (3333 / 10000), Num (3333 / 10000),
                     Num (3333 / 10000), Num (3333 / 10000)],
                    [Str ''score_time'', Num (1429 / 10000), Num (1429 / 10000),
                     Num (1429 / 10000), Num (1429 / 10000)],
                    [Str ''test_score'', Num (2 / 5), Num (9 / 20), Num (2 / 5), Num (2 / 5)],
                    [Str ''train_score'', Num (6667 / 10000), Num (6667 / 10000),
                     Num (6667 / 10000), Num (6667 / 10000)]]\<rparr>"
    by code_simp
  from scores_table_layout [of example_library "[]"] h show ?thesis
    by simp
qed

subsection \<open>A category the train set does not have\<close>

lemma set_unique: "set (unique col) = set col"
  by (simp add: unique_def)

lemma length_unique: "length (unique col) = card (set col)"
  by (simp add: unique_def length_remdups_card_conv)

lemma comprehension_total:
  assumes "list_all (\<lambda>x. f x = Inr (g x)) xs"
  shows "comprehension f xs = Inr (map g xs)"
  using assms by (induction xs) auto

lemma encode_known:
  assumes "v \<in> set cats"
  shows "encode enc cats v = Inr (map (\<lambda>c. if c = v then 1 else 0) (kept_categories enc cats))"
  using assms by (simp add: encode_def)

lemma encode_unknown_ignored:
  assumes "v \<notin> set cats" and "handle_unknown enc = Ignore"
  shows "encode enc cats v = Inr (replicate (length (kept_categories enc cats)) 0)"
  using assms by (simp add: encode_def)

lemma encode_length:
  assumes "encode enc cats v = Inr b"
  shows "length b = length (kept_categories enc cats)"
  using assms by (auto simp: encode_def split: if_splits unknown_policy.splits)

lemma encode_columns_known:
  assumes "list_all2 (\<lambda>cats v. v \<in> set cats) catss vs"
  shows "\<exists>b. encode_columns enc catss vs = Inr b \<and>
             length b = sum_list (map (\<lambda>cats. length (kept_categories enc cats)) catss)"
  using assms
proof (induction catss vs rule: list_all2_induct)
  case Nil
  then show ?case by simp
next
  case (Cons cats catss v vs)
  then obtain b where b: "encode_columns enc catss vs = Inr b"
    "length b = sum_list (map (\<lambda>cats. length (kept_categories enc cats)) catss)"
    by blast
  with Cons.hyps(1) show ?case
    by (simp add: encode_known)
qed

lemma length_get_feature_names:
  assumes "length input_features = length catss"
  shows "length (get_feature_names enc catss input_features)
           = sum_list (map (\<lambda>cats. length (kept_categories enc cats)) catss)"
  using assms
proof (induction input_features catss rule: list_induct2)
  case Nil
  then show ?case by (simp add: get_feature_names_def)
next
  case (Cons f fs cats catss)
  then show ?case by (simp add: get_feature_names_def)
qed

lemma length_ohe_columns:
  "length (ohe_columns (preprocessor_fit train))
     = card (set (map (\<lambda>r. impute_categorical (BLDG_DESC r)) train))"
  by (simp add: ohe_columns_def length_get_feature_names categorical_features_def
      preprocessor_fit_def kept_categories_def categorical_encoder_def length_unique)

lemma categorical_block_unseen:
  assumes "impute_categorical (BLDG_DESC r)
             \<notin> set (map (\<lambda>h. impute_categorical (BLDG_DESC h)) train)"
  shows "categorical_block (preprocessor_fit train) r
           = Inr (replicate (length (ohe_columns (preprocessor_fit train))) 0)"
proof -
  let ?cats = "unique (map (\<lambda>h. impute_categorical (BLDG_DESC h)) train)"
  have "impute_categorical (BLDG_DESC r) \<notin> set ?cats"
    using assms by (simp add: set_unique)
  then have "encode categorical_encoder ?cats (impute_categorical (BLDG_DESC r))
      = Inr (replicate (length (kept_categories categorical_encoder ?cats)) 0)"
    by (rule encode_unknown_ignored) (simp add: categorical_encoder_def)
  moreover have "length (kept_categories categorical_encoder ?cats)
      = length (ohe_columns (preprocessor_fit train))"
    by (simp add: length_ohe_columns kept_categories_def categorical_encoder_def length_unique)
  ultimately show ?thesis
    by (simp add: categorical_block_def preprocessor_fit_def categorical_values_def)
qed

lemma categorical_block_never_raises:
  "\<exists>c. categorical_block pre r = Inr c"
proof -
  have enc: "\<exists>b. encode categorical_encoder cats v = Inr b" for cats v
    by (simp add: encode_def categorical_encoder_def)
  have "\<exists>c. encode_columns categorical_encoder catss vs = Inr c" for catss vs
  proof (induction categorical_encoder catss vs rule: encode_columns.induct)
    case (1 cats catss v vs)
    then show ?case
      using enc [of cats v] by (auto split: sum.splits)
  qed simp_all
  then show ?thesis
    by (simp add: categorical_block_def)
qed


lemma comprehension_all_Inr:
  assumes "list_all (\<lambda>x. \<exists>y. f x = Inr y \<and> P y) xs"
  shows "\<exists>ys. comprehension f xs = Inr ys \<and> length ys = length xs \<and> list_all P ys"
  using assms by (induction xs) auto

lemma binary_block_known:
  assumes "known_binary_labels pre r"
  shows "\<exists>b. binary_block pre r = Inr b \<and>
           length b = sum_list (map (\<lambda>cats. length (kept_categories binary_encoder cats))
                                  (binary_categories pre))"
  using assms unfolding known_binary_labels_def binary_block_def
  by (rule encode_columns_known)

lemma preprocessor_transform_known:
  assumes "known_binary_labels pre r"
  shows "\<exists>x. preprocessor_transform pre r = Inr x"
proof -
  obtain c where "categorical_block pre r = Inr c"
    using categorical_block_never_raises by blast
  moreover obtain b where "binary_block pre r = Inr b"
    using binary_block_known [OF assms] by blast
  ultimately show ?thesis
    by (simp add: preprocessor_transform_def)
qed

lemma ridgecv_pipeline_predict_known:
  assumes "list_all (known_binary_labels pre) test"
  shows "\<exists>ys. ridgecv_pipeline_predict (pre, m) test = Inr ys \<and> length ys = length test"
proof -
  have "list_all (\<lambda>x. \<exists>y. preprocessor_transform pre x = Inr y \<and> True) test"
    using assms preprocessor_transform_known by (auto simp: list_all_iff)
  from comprehension_all_Inr [OF this]
  obtain X where "design_matrix pre test = Inr X" and "length X = length test"
    unfolding design_matrix_def by blast
  then show ?thesis
    by (simp add: ridgecv_pipeline_predict_def)
qed

text \<open>
  C6. A row whose building description was never observed in the train set raises no
  error in the categorical encoder: its indicator block is all zeros, one zero per
  observed category, and the expanded row is this block followed by the binary and the
  numerical blocks. Prediction on a test set with such a row returns one value per row;
  the only values the preprocessor rejects are unknown labels in the four binary
  columns, whose encoder is not set to ignore them.
\<close>

theorem unseen_category_all_zero:
  assumes "impute_categorical (BLDG_DESC r)
             \<notin> set (map (\<lambda>h. impute_categorical (BLDG_DESC h)) train)"
  shows "categorical_block (preprocessor_fit train) r
           = Inr (replicate (length (ohe_columns (preprocessor_fit train))) 0) \<and>
         (\<forall>b. binary_block (preprocessor_fit train) r = Inr b \<longrightarrow>
              preprocessor_transform (preprocessor_fit train) r
                = Inr (replicate (length (ohe_columns (preprocessor_fit train))) 0
                       @ b @ numerical_values r)) \<and>
         (r \<in> set test \<and> list_all (known_binary_labels (preprocessor_fit train)) test \<longrightarrow>
            (\<exists>ys. ridgecv_pipeline_predict (preprocessor_fit train, m) test = Inr ys \<and>
                  length ys = length test))"
proof -
  let ?pre = "preprocessor_fit train"
  have zero: "categorical_block ?pre r = Inr (replicate (length (ohe_columns ?pre)) 0)"
    by (rule categorical_block_unseen [OF assms])
  then have row: "\<forall>b. binary_block ?pre r = Inr b \<longrightarrow>
      preprocessor_transform ?pre r
        = Inr (replicate (length (ohe_columns ?pre)) 0 @ b @ numerical_values r)"
    by (simp add: preprocessor_transform_def)
  have "\<exists>ys. ridgecv_pipeline_predict (?pre, m) test = Inr ys \<and> length ys = length test"
    if "list_all (known_binary_labels ?pre) test"
    using that by (rule ridgecv_pipeline_predict_known)
  with zero row show ?thesis by blast
qed



theorem unseen_category_all_zero_witness:
  "impute_categorical (BLDG_DESC example_test_row)
     \<notin> set (map (\<lambda>h. impute_categorical (BLDG_DESC h)) example_train) \<and>
   categorical_block (preprocessor_fit example_train) example_test_row = Inr [0, 0, 0] \<and>
   preprocessor_transform (preprocessor_fit example_train) example_test_row
     = Inr [0, 0, 0, 0, 1, 0, 0, 3, 800, 53, - 113] \<and>
   ridgecv_pipeline_predict
       (preprocessor_fit example_train,
        \<lparr>alpha' = 1, coef' = replicate 11 1, intercept' = 0\<rparr>) [example_test_row]
     = Inr [744]"
proof -
  have h: "impute_categorical (BLDG_DESC example_test_row)
     \<notin> set (map (\<lambda>h. impute_categorical (BLDG_DESC h)) example_train)"
    by code_simp
  have n: "length (ohe_columns (preprocessor_fit example_train)) = 3"
    by code_simp
  have b: "binary_block (preprocessor_fit example_train) example_test_row = Inr [0, 1, 0, 0]"
    by code_simp
  have v: "numerical_values example_test_row = [3, 800, 53, - 113]"
    by code_simp
  have p: "ridgecv_pipeline_predict
       (preprocessor_fit example_train,
        \<lparr>alpha' = 1, coef' = replicate 11 1, intercept' = 0\<rparr>) [example_test_row]
     = Inr [744]"
    by code_simp
  from unseen_category_all_zero [OF h] n b v p h show ?thesis
    by (simp add: numeral_eq_Suc)
qed

subsection \<open>The number of rows of the coefficient table\<close>

lemma binary_kept_one:
  assumes "card (set col) = 2"
  shows "length (kept_categories binary_encoder (unique col)) = 1"
  using assms by (simp add: kept_categories_def binary_encoder_def length_unique)

lemma train_row_known_labels:
  assumes "r \<in> set train"
  shows "known_binary_labels (preprocessor_fit train) r"
  using assms
  by (simp add: known_binary_labels_def preprocessor_fit_def binary_values_def set_unique)

lemma binary_width:
  assumes "card (set (map GARAGE train)) = 2" and "card (set (map FIREPLACE train)) = 2"
    and "card (set (map BASEMENT train)) = 2" and "card (set (map BSMTDEVL train)) = 2"
  shows "sum_list (map (\<lambda>cats. length (kept_categories binary_encoder cats))
                     (binary_categories (preprocessor_fit train))) = 4"
  using assms by (simp add: preprocessor_fit_def binary_kept_one)

lemma categorical_block_train_row:
  assumes "r \<in> set train"
  shows "\<exists>c. categorical_block (preprocessor_fit train) r = Inr c \<and>
             length c = card (set (map (\<lambda>h. impute_categorical (BLDG_DESC h)) train))"
proof -
  let ?cats = "unique (map (\<lambda>h. impute_categorical (BLDG_DESC h)) train)"
  have "list_all2 (\<lambda>cats v. v \<in> set cats) [?cats] [impute_categorical (BLDG_DESC r)]"
    using assms by (simp add: set_unique)
  from encode_columns_known [OF this, of categorical_encoder] show ?thesis
    by (simp add: categorical_block_def preprocessor_fit_def categorical_values_def
        kept_categories_def categorical_encoder_def length_unique)
qed

lemma length_features:
  assumes "card (set (map GARAGE train)) = 2" and "card (set (map FIREPLACE train)) = 2"
    and "card (set (map BASEMENT train)) = 2" and "card (set (map BSMTDEVL train)) = 2"
  shows "length (features (preprocessor_fit train))
           = card (set (map (\<lambda>h. impute_categorical (BLDG_DESC h)) train)) + 4 + 4"
proof -
  have "length (binary_columns (preprocessor_fit train)) = 4"
    using binary_width [OF assms]
    by (simp add: binary_columns_def length_get_feature_names binary_features_def
        preprocessor_fit_def)
  then show ?thesis
    by (simp add: features_def length_ohe_columns numerical_features_def)
qed

lemma train_row_width:
  assumes "card (set (map GARAGE train)) = 2" and "card (set (map FIREPLACE train)) = 2"
    and "card (set (map BASEMENT train)) = 2" and "card (set (map BSMTDEVL train)) = 2"
    and "r \<in> set train"
  shows "\<exists>x. preprocessor_transform (preprocessor_fit train) r = Inr x \<and>
             length x = card (set (map (\<lambda>h. impute_categorical (BLDG_DESC h)) train)) + 4 + 4"
proof -
  obtain c where c: "categorical_block (preprocessor_fit train) r = Inr c"
    "length c = card (set (map (\<lambda>h. impute_categorical (BLDG_DESC h)) train))"
    using categorical_block_train_row [OF assms(5)] by blast
  obtain b where b: "binary_block (preprocessor_fit train) r = Inr b" "length b = 4"
    using binary_block_known [OF train_row_known_labels [OF assms(5)]]
      binary_width [OF assms(1-4)] by auto
  show ?thesis
    using c b by (simp add: preprocessor_transform_def numerical_values_def)
qed


lemma ridgecv_fit_coef:
  "coef' (ridgecv_fit lib grid X y)
     = fst (ridge_solve lib (arg_min_list (\<lambda>a. ridge_cv_error lib a X y) grid) X y)"
  by (simp add: ridgecv_fit_def Let_def case_prod_unfold)

lemma make_feature_table_total:
  assumes "argsort_sorts srt coef" and "length feats = length coef"
  shows "make_feature_table srt feats coef
           = Inr \<lparr>feature = map (\<lambda>i. feats ! i) (srt coef),
                  coefficient = map (\<lambda>i. map (np_round 2) coef ! i) (srt coef)\<rparr>"
proof -
  note r = argsort_in_range [OF assms(1)]
  have "comprehension (py_index feats) (srt coef) = Inr (map (\<lambda>i. feats ! i) (srt coef))"
    using r assms(2) by (intro comprehension_index_total) simp
  moreover have "comprehension (py_index (map (np_round 2) coef)) (srt coef)
      = Inr (map (\<lambda>i. map (np_round 2) coef ! i) (srt coef))"
    using r by (intro comprehension_index_total) simp
  ultimately show ?thesis
    by (simp add: make_feature_table_def Let_def)
qed

lemma ridgecv_pipeline_fit_train:
  assumes "card (set (map GARAGE train)) = 2" and "card (set (map FIREPLACE train)) = 2"
    and "card (set (map BASEMENT train)) = 2" and "card (set (map BSMTDEVL train)) = 2"
    and "library_contract lib train"
  obtains X where "design_matrix (preprocessor_fit train) train = Inr X"
    and "ridgecv_pipeline_fit lib train
           = Inr (preprocessor_fit train, ridgecv_fit lib alphas X (map ASSESSMENT train))"
    and "length (coef' (ridgecv_fit lib alphas X (map ASSESSMENT train)))
           = length (features (preprocessor_fit train))"
    and "argsort_sorts (argsort lib) (coef' (ridgecv_fit lib alphas X (map ASSESSMENT train)))"
proof -
  let ?pre = "preprocessor_fit train"
  let ?n = "card (set (map (\<lambda>r. impute_categorical (BLDG_DESC r)) train)) + 4 + 4"
  let ?y = "map ASSESSMENT train"
  have "list_all (\<lambda>r. \<exists>x. preprocessor_transform ?pre r = Inr x \<and> length x = ?n) train"
    using train_row_width [OF assms(1-4)] by (simp add: list_all_iff)
  from comprehension_all_Inr [OF this]
  obtain X where X: "design_matrix ?pre train = Inr X" "length X = length train"
    "list_all (\<lambda>x. length x = ?n) X"
    unfolding design_matrix_def by blast
  have "train \<noteq> []"
    using assms(1) by auto
  then have width: "n_columns X = ?n"
    using X(2,3) by (cases X) (simp_all add: n_columns_def)
  let ?m = "ridgecv_fit lib alphas X ?y"
  have shape: "solver_shape lib X ?y" and srt: "argsort_sorts (argsort lib) (coef' ?m)"
    using assms(5) X(1) by (simp_all add: library_contract_def)
  have "alphas \<noteq> []"
    by (simp add: alphas_values)
  then have "arg_min_list (\<lambda>a. ridge_cv_error lib a X ?y) alphas \<in> set alphas"
    by (rule arg_min_list_in)
  then have "length (coef' ?m) = ?n"
    using shape width by (simp add: solver_shape_def ridgecv_fit_coef list_all_iff)
  then have len: "length (coef' ?m) = length (features ?pre)"
    using length_features [OF assms(1-4)] by simp
  have fit: "ridgecv_pipeline_fit lib train = Inr (?pre, ?m)"
    using X(1) by (simp add: ridgecv_pipeline_fit_def Let_def)
  from X(1) fit len srt show ?thesis
    by (rule that)
qed

text \<open>
  C7. When each of the four binary columns takes exactly two values in the train set,
  the coefficient table has as many rows as there are distinct categories observed in
  \<open>BLDG_DESC\<close> (a missing description counts as the placeholder category), plus four for
  the binary features, plus four for the numerical features. The table is built for
  every such train set, provided the ridge solver returns one coefficient per column
  and \<open>np.argsort\<close> sorts.
\<close>

theorem coefficient_table_row_count:
  assumes "card (set (map GARAGE train)) = 2" and "card (set (map FIREPLACE train)) = 2"
    and "card (set (map BASEMENT train)) = 2" and "card (set (map BSMTDEVL train)) = 2"
    and "library_contract lib train"
  shows "\<exists>t. coefficient_table lib train = Inr t \<and>
             length (feature t)
               = card (set (map (\<lambda>r. impute_categorical (BLDG_DESC r)) train)) + 4 + 4 \<and>
             length (coefficient t) = length (feature t)"
proof -
  let ?pre = "preprocessor_fit train"
  obtain X where fit: "ridgecv_pipeline_fit lib train
           = Inr (?pre, ridgecv_fit lib alphas X (map ASSESSMENT train))"
    and len: "length (coef' (ridgecv_fit lib alphas X (map ASSESSMENT train)))
           = length (features ?pre)"
    and srt: "argsort_sorts (argsort lib)
           (coef' (ridgecv_fit lib alphas X (map ASSESSMENT train)))"
    using ridgecv_pipeline_fit_train [OF assms] by metis
  let ?m = "ridgecv_fit lib alphas X (map ASSESSMENT train)"
  have "coefficient_table lib train
      = Inr \<lparr>feature = map (\<lambda>i. features ?pre ! i) (argsort lib (coef' ?m)),
             coefficient = map (\<lambda>i. map (np_round 2) (coef' ?m) ! i) (argsort lib (coef' ?m))\<rparr>"
    using make_feature_table_total [OF srt len [symmetric]] fit
    by (simp add: coefficient_table_def)
  moreover have "length (argsort lib (coef' ?m)) = length (features ?pre)"
    using make_feature_table_length [OF srt] len by simp
  ultimately show ?thesis
    using length_features [OF assms(1-4)] by simp
qed

theorem coefficient_table_row_count_witness:
  "card (set (map GARAGE example_train)) = 2 \<and>
   card (set (map FIREPLACE example_train)) = 2 \<and>
   card (set (map BASEMENT example_train)) = 2 \<and>
   card (set (map BSMTDEVL example_train)) = 2 \<and>
   library_contract example_library example_train \<and>
   card (set (map (\<lambda>r. impute_categorical (BLDG_DESC r)) example_train)) = 3 \<and>
   coefficient_table example_library example_train
     = Inr \<lparr>feature =
              [''BLDG_DESC_Bungalow'', ''BLDG_FEET'', ''BASEMENT_Y'',
               ''BLDG_DESC_missing_value'', ''LONGITUDE'', ''AGE'', ''FIREPLACE_Y'',
               ''BLDG_DESC_Duplex'', ''LATITUDE'', ''BSMTDEVL_Y'', ''GARAGE_Y''],
            coefficient =
              [- (31 / 100), - (1 / 4), - (19 / 100), - (3 / 25), - (3 / 50), 0,
               3 / 50, 3 / 25, 19 / 100, 1 / 4, 31 / 100]\<rparr>"
proof -
  have h1: "card (set (map GARAGE example_train)) = 2"
    by code_simp
  have h2: "card (set (map FIREPLACE example_train)) = 2"
    by code_simp
  have h3: "card (set (map BASEMENT example_train)) = 2"
    by code_simp
  have h4: "card (set (map BSMTDEVL example_train)) = 2"
    by code_simp
  have h5: "library_contract example_library example_train"
    by code_simp
  have c: "card (set (map (\<lambda>r. impute_categorical (BLDG_DESC r)) example_train)) = 3"
    by code_simp
  have t: "coefficient_table example_library example_train
     = Inr \<lparr>feature =
              [''BLDG_DESC_Bungalow'', ''BLDG_FEET'', ''BASEMENT_Y'',
               ''BLDG_DESC_missing_value'', ''LONGITUDE'', ''AGE'', ''FIREPLACE_Y'',
               ''BLDG_DESC_Duplex'', ''LATITUDE'', ''BSMTDEVL_Y'', ''GARAGE_Y''],
            coefficient =
              [- (31 / 100), - (1 / 4), - (19 / 100), - (3 / 25), - (3 / 50), 0,
               3 / 50, 3 / 25, 19 / 100, 1 / 4, 31 / 100]\<rparr>"
    by code_simp
  from coefficient_table_row_count [OF h1 h2 h3 h4 h5] h1 h2 h3 h4 h5 c t show ?thesis
    by blast
qed

subsection \<open>The whole run\<close>

lemma scores_df_total: "\<exists>df. scores_df lib train = Inr df"
proof -
  have d: "return_train_score dummy_call" and r: "return_train_score ridgecv_call"
    and f: "return_train_score random_forest_call" and x: "return_train_score xgb_call"
    by (simp_all add: dummy_call_def ridgecv_call_def random_forest_call_def xgb_call_def)
  have "length (cross_validate lib dummy_call train) = 4"
    by (simp add: cross_validate_with_train_score [OF d])
  moreover have "length (mean_scores (cross_validate lib c train)) = 4"
    if "return_train_score c" for c
    using that by (simp add: cross_validate_with_train_score mean_scores_def)
  ultimately show ?thesis
    using d r f x by (simp add: scores_df_def store_scores_def Let_def)
qed

text \<open>
  With two labels in every binary column of the train set, known binary labels in the
  test set, the numerical library as expected and no failure pending in the file
  system, \<open>main\<close> ends normally and leaves the three tables at the three paths, whether
  their directories existed or not.
\<close>

lemma main_writes_three_tables:
  assumes "card (set (map GARAGE train)) = 2" and "card (set (map FIREPLACE train)) = 2"
    and "card (set (map BASEMENT train)) = 2" and "card (set (map BSMTDEVL train)) = 2"
    and "library_contract lib train"
    and "list_all (known_binary_labels (preprocessor_fit train)) test"
    and "fault fs = Map.empty"
  shows "\<exists>scores score ft.
           scores_df lib train = Inr scores \<and>
           coefficient_table lib train = Inr ft \<and>
           fst (main lib fs train test out_file1 out_file2 out_file3) = None \<and>
           files (snd (main lib fs train test out_file1 out_file2 out_file3))
             = (files fs)(out_file1 \<mapsto> scores, out_file2 \<mapsto> test_set_score score,
                          out_file3 \<mapsto> feature_frame ft)"
proof -
  obtain scores where s: "scores_df lib train = Inr scores"
    using scores_df_total by blast
  obtain X where fit: "ridgecv_pipeline_fit lib train
           = Inr (preprocessor_fit train, ridgecv_fit lib alphas X (map ASSESSMENT train))"
    and len: "length (coef' (ridgecv_fit lib alphas X (map ASSESSMENT train)))
           = length (features (preprocessor_fit train))"
    and srt: "argsort_sorts (argsort lib) (coef' (ridgecv_fit lib alphas X (map ASSESSMENT train)))"
    using ridgecv_pipeline_fit_train [OF assms(1-5)] by metis
  let ?m = "ridgecv_fit lib alphas X (map ASSESSMENT train)"
  obtain ys where p: "ridgecv_pipeline_predict (preprocessor_fit train, ?m) test = Inr ys"
    using ridgecv_pipeline_predict_known [OF assms(6)] by blast
  obtain ft where t: "make_feature_table (argsort lib) (features (preprocessor_fit train)) (coef' ?m) = Inr ft"
    using make_feature_table_total [OF srt len [symmetric]] by simp
  have c: "coefficient_table lib train = Inr ft"
    using fit t by (simp add: coefficient_table_def)
  have m: "main lib fs train test out_file1 out_file2 out_file3
      = write_outputs fs out_file1 scores
          out_file2 (test_set_score (r2_score lib (map ASSESSMENT test) ys))
          out_file3 (feature_frame ft)"
    using s fit p t by (simp add: main_def)
  show ?thesis
    using s c write_outputs_no_fault [OF assms(7)] unfolding m by blast
qed

end
